theory Spec2Isabelle
  imports
    Main
    "HOL-Library.Word"
    "HOL-Library.Multiset"
    "HOL-Library.Product_Lexorder"
    "HOL-Library.List_Lexorder"
begin

unbundle bit_operations_syntax

section \<open>The persistence layer of openrecall: \<^verbatim>\<open>src/openrecall/database.py\<close>\<close>

text \<open>
  The module has four functions, \<^verbatim>\<open>create_db\<close>, \<^verbatim>\<open>get_all_entries\<close>,
  \<^verbatim>\<open>get_timestamps\<close> and \<^verbatim>\<open>insert_entry\<close>. Each opens a connection to one SQLite
  file, runs a few statements and catches \<^verbatim>\<open>sqlite3.Error\<close>. The embedding of an
  entry is a NumPy array, stored as the bytes of its float32 form.

  The Python is embedded function by function. The two libraries it calls are modelled
  as far as the module uses them:
  \<^item> NumPy: \<^verbatim>\<open>astype(np.float32)\<close>, \<^verbatim>\<open>tobytes()\<close> and \<^verbatim>\<open>np.frombuffer\<close>;
  \<^item> sqlite3: the statements the module issues, on a store that is a map from table
    names to tables, with the transaction rules of Python's \<^verbatim>\<open>sqlite3\<close> connection.
\<close>

subsection \<open>Exceptions and results\<close>

text \<open>
  \<open>sqlite_error\<close> is the class \<^verbatim>\<open>sqlite3.Error\<close> (the module's handlers catch exactly
  this class); \<open>py_error\<close> are the other exceptions, which no handler of the module
  catches. A Python function either returns a value or raises.
\<close>

datatype sqlite_error = OperationalError | IntegrityError

datatype py_error = ValueError | TypeError | AttributeError | IndexError

datatype 'a outcome = Returns 'a | Raises py_error

definition and_then :: "'e + 'a \<Rightarrow> ('a \<Rightarrow> 'e + 'b) \<Rightarrow> 'e + 'b" where
  "and_then m f = (case m of Inl e \<Rightarrow> Inl e | Inr x \<Rightarrow> f x)"

subsection \<open>The vector codec: float32 arrays and their bytes\<close>

text \<open>
  A float32 is modelled by its IEEE-754 bit pattern, a 32-bit word; equality of two
  float32 vectors is equality of their bit patterns. The rounding of an array element
  to float32 (\<^verbatim>\<open>astype(np.float32)\<close>) is a parameter \<open>to_f32\<close> of the model: its
  arithmetic is not modelled. \<^verbatim>\<open>tobytes()\<close> writes each element in the byte order of
  the machine, taken little-endian here; \<^verbatim>\<open>np.frombuffer\<close> reads in the same order.
\<close>

type_synonym byte = "8 word"
type_synonym float32 = "32 word"

definition f32_to_bytes :: "float32 \<Rightarrow> byte list" where
  "f32_to_bytes w = [ucast w, ucast (drop_bit 8 w), ucast (drop_bit 16 w), ucast (drop_bit 24 w)]"

definition f32_of_bytes :: "byte \<Rightarrow> byte \<Rightarrow> byte \<Rightarrow> byte \<Rightarrow> float32" where
  "f32_of_bytes b0 b1 b2 b3 =
     ucast b0 OR push_bit 8 (ucast b1) OR push_bit 16 (ucast b2) OR push_bit 24 (ucast b3)"

text \<open>\<^verbatim>\<open>ndarray.tobytes()\<close> of a float32 array: 4 bytes an element, nothing else.\<close>

definition tobytes :: "float32 list \<Rightarrow> byte list" where
  "tobytes fs = concat (map f32_to_bytes fs)"

fun unpack :: "byte list \<Rightarrow> float32 list" where
  "unpack (b0 # b1 # b2 # b3 # rest) = f32_of_bytes b0 b1 b2 b3 # unpack rest"
| "unpack _ = []"

text \<open>
  The argument \<^verbatim>\<open>embedding\<close> of \<^verbatim>\<open>insert_entry\<close>. A caller can pass an array whose
  elements are numbers, an array holding an object that has no float value
  (\<^verbatim>\<open>astype\<close> raises \<^verbatim>\<open>ValueError\<close>), or an object that is no array at all (there is no
  \<^verbatim>\<open>astype\<close> attribute: \<^verbatim>\<open>AttributeError\<close>).
\<close>

datatype 'f elem = Num 'f | NonNumeric

datatype 'f embedding_arg = Ndarray "'f elem list" | NotAnArray

fun astype_float32 :: "('f \<Rightarrow> float32) \<Rightarrow> 'f elem list \<Rightarrow> py_error + float32 list" where
  "astype_float32 to_f32 [] = Inr []"
| "astype_float32 to_f32 (Num x # xs) =
     (case astype_float32 to_f32 xs of Inl e \<Rightarrow> Inl e | Inr fs \<Rightarrow> Inr (to_f32 x # fs))"
| "astype_float32 to_f32 (NonNumeric # xs) = Inl ValueError"

text \<open>Line 178: \<^verbatim>\<open>embedding.astype(np.float32).tobytes()\<close>.\<close>

fun encode_embedding :: "('f \<Rightarrow> float32) \<Rightarrow> 'f embedding_arg \<Rightarrow> py_error + byte list" where
  "encode_embedding to_f32 (Ndarray xs) =
     (case astype_float32 to_f32 xs of Inl e \<Rightarrow> Inl e | Inr fs \<Rightarrow> Inr (tobytes fs))"
| "encode_embedding to_f32 NotAnArray = Inl AttributeError"

subsection \<open>Values, rows and tables of the store\<close>

text \<open>
  The values of the store, which are also the Python values a query hands back:
  \<^verbatim>\<open>None\<close>, an \<^verbatim>\<open>int\<close>, a \<^verbatim>\<open>str\<close>, a \<^verbatim>\<open>bytes\<close>. The module binds no float to a
  statement, so the REAL storage class is left out. Integers are unbounded in the model
  (SQLite's are 64-bit; a timestamp counts seconds and a row id counts rows).
\<close>

datatype sql_value = SqlNull | SqlInt int | SqlText string | SqlBlob "byte list"

text \<open>
  A row has its rowid and the cells of the other columns. A column named \<^verbatim>\<open>id\<close> is the
  \<^verbatim>\<open>INTEGER PRIMARY KEY AUTOINCREMENT\<close> of both table shapes the module knows: it reads
  the rowid. A cell that was never written reads NULL (a row copied without the column,
  a column added later).
\<close>

record row =
  rowid :: int
  cells :: "(string \<times> sql_value) list"

definition cell :: "row \<Rightarrow> string \<Rightarrow> sql_value" where
  "cell r c =
     (if c = ''id'' then SqlInt (rowid r)
      else case map_of (cells r) c of None \<Rightarrow> SqlNull | Some v \<Rightarrow> v)"

text \<open>
  A table: the text of its definition as \<^verbatim>\<open>sqlite_master.sql\<close> holds it, its columns
  in order (\<^verbatim>\<open>PRAGMA table_info\<close>), the columns on which the store enforces
  uniqueness, the rows in insertion order, and the AUTOINCREMENT counter
  (\<^verbatim>\<open>sqlite_sequence\<close>).
\<close>

record table =
  tbl_sql :: string
  tbl_columns :: "string list"
  tbl_unique :: "string list"
  tbl_rows :: "row list"
  tbl_seq :: int

text \<open>The store: its tables by name, and its indexes as (index, (table, column)).\<close>

record database =
  db_tables :: "string \<rightharpoonup> table"
  db_indexes :: "(string \<times> string \<times> string) list"

definition empty_database :: database where
  "empty_database = \<lparr>db_tables = Map.empty, db_indexes = []\<rparr>"

text \<open>The seven columns, as the list at line 60 and the two CREATE statements have them.\<close>

definition entries_columns :: "string list" where
  "entries_columns =
     [''id'', ''app'', ''title'', ''text'', ''timestamp'', ''embedding'', ''filename'']"

text \<open>
  The text SQLite stores for the table created by lines 38-48 and lines 73-83: the
  statement from the table name on, after \<^verbatim>\<open>CREATE TABLE\<close>, with its line breaks and
  indentation.
\<close>

definition sql_newline :: string where
  "sql_newline = CHR 0x0A # replicate 27 CHR '' ''"

definition entries_sql :: string where
  "entries_sql =
     ''CREATE TABLE entries ('' @ sql_newline @
     ''id INTEGER PRIMARY KEY AUTOINCREMENT,'' @ sql_newline @
     ''app TEXT,'' @ sql_newline @
     ''title TEXT,'' @ sql_newline @
     ''text TEXT,'' @ sql_newline @
     ''timestamp INTEGER,'' @ sql_newline @
     ''embedding BLOB,'' @ sql_newline @
     ''filename TEXT'' @ CHR 0x0A # replicate 23 CHR '' '' @ '')''"

definition new_entries_table :: table where
  "new_entries_table =
     \<lparr>tbl_sql = entries_sql, tbl_columns = entries_columns, tbl_unique = [],
      tbl_rows = [], tbl_seq = 0\<rparr>"

subsection \<open>The statements the module issues\<close>

text \<open>
  Each statement is a function on the store that answers with the new store or with the
  \<^verbatim>\<open>sqlite3.Error\<close> SQLite raises: no such table, no such column, a name already
  taken, a syntax error (all \<^verbatim>\<open>OperationalError\<close>), a violated constraint
  (\<^verbatim>\<open>IntegrityError\<close>). A statement that fails leaves the store as it was.
\<close>

text \<open>\<^verbatim>\<open>needle in haystack\<close> on Python strings.\<close>

fun is_substring :: "string \<Rightarrow> string \<Rightarrow> bool" where
  "is_substring needle [] = (needle = [])"
| "is_substring needle (c # cs) =
     (take (length needle) (c # cs) = needle \<or> is_substring needle cs)"

text \<open>Line 23: \<^verbatim>\<open>SELECT sql FROM sqlite_master WHERE type='table' AND name=...\<close>, fetchone.\<close>

definition select_table_sql :: "string \<Rightarrow> database \<Rightarrow> string option" where
  "select_table_sql name db = map_option tbl_sql (db_tables db name)"

definition name_taken :: "database \<Rightarrow> string \<Rightarrow> bool" where
  "name_taken db name = (db_tables db name \<noteq> None \<or> map_of (db_indexes db) name \<noteq> None)"

text \<open>
  Line 35: \<^verbatim>\<open>ALTER TABLE old RENAME TO new\<close>. The indexes of the table follow it.
  (SQLite also rewrites the name inside the stored text; the module reads the stored text
  of \<^verbatim>\<open>entries\<close> only, never that of the renamed table, so the text is kept.)
\<close>

definition alter_table_rename :: "string \<Rightarrow> string \<Rightarrow> database \<Rightarrow> sqlite_error + database" where
  "alter_table_rename old new db =
     (case db_tables db old of
        None \<Rightarrow> Inl OperationalError
      | Some t \<Rightarrow>
          if name_taken db new then Inl OperationalError
          else Inr (db\<lparr>db_tables := (db_tables db)(old := None, new \<mapsto> t),
                       db_indexes := map (\<lambda>(i, tn, c). (i, if tn = old then new else tn, c))
                                         (db_indexes db)\<rparr>))"

text \<open>Lines 38-48: \<^verbatim>\<open>CREATE TABLE entries (...)\<close>.\<close>

definition create_table :: "string \<Rightarrow> database \<Rightarrow> sqlite_error + database" where
  "create_table name db =
     (if name_taken db name then Inl OperationalError
      else Inr (db\<lparr>db_tables := (db_tables db)(name \<mapsto> new_entries_table)\<rparr>))"

text \<open>Lines 73-83: \<^verbatim>\<open>CREATE TABLE IF NOT EXISTS entries (...)\<close>.\<close>

definition create_table_if_not_exists :: "string \<Rightarrow> database \<Rightarrow> sqlite_error + database" where
  "create_table_if_not_exists name db =
     (if db_tables db name \<noteq> None then Inr db else create_table name db)"

text \<open>Line 57: \<^verbatim>\<open>PRAGMA table_info(name)\<close>, the column names (\<^verbatim>\<open>row[1]\<close>).\<close>

definition pragma_table_info :: "string \<Rightarrow> database \<Rightarrow> string list" where
  "pragma_table_info name db = (case db_tables db name of None \<Rightarrow> [] | Some t \<Rightarrow> tbl_columns t)"

text \<open>
  One row enters a table. \<open>vals\<close> are the columns named by the statement with their
  values; the other columns read NULL. The rowid is the given \<^verbatim>\<open>id\<close>, or else one more
  than the largest rowid the table ever held (AUTOINCREMENT). The store refuses a rowid
  already present and a value already present in a column declared UNIQUE (NULLs never
  clash).
\<close>

definition next_rowid :: "table \<Rightarrow> int" where
  "next_rowid t = max (tbl_seq t) (fold max (map rowid (tbl_rows t)) 0) + 1"

definition unique_clash :: "table \<Rightarrow> (string \<times> sql_value) list \<Rightarrow> bool" where
  "unique_clash t vals =
     list_ex (\<lambda>c. case map_of vals c of
                     None \<Rightarrow> False
                   | Some SqlNull \<Rightarrow> False
                   | Some v \<Rightarrow> list_ex (\<lambda>r. cell r c = v) (tbl_rows t))
             (filter (\<lambda>c. c \<noteq> ''id'') (tbl_unique t))"

definition store_row :: "table \<Rightarrow> int \<Rightarrow> (string \<times> sql_value) list \<Rightarrow> sqlite_error + table \<times> int" where
  "store_row t rid vals =
     (if list_ex (\<lambda>r. rowid r = rid) (tbl_rows t) then Inl IntegrityError
      else if unique_clash t vals then Inl IntegrityError
      else Inr (t\<lparr>tbl_rows := tbl_rows t @
                     [\<lparr>rowid = rid, cells = filter (\<lambda>(c, v). c \<noteq> ''id'') vals\<rparr>],
                   tbl_seq := max (tbl_seq t) rid\<rparr>, rid))"

definition insert_row :: "table \<Rightarrow> (string \<times> sql_value) list \<Rightarrow> sqlite_error + table \<times> int" where
  "insert_row t vals =
     (if \<not> list_all (\<lambda>(c, v). c \<in> set (tbl_columns t)) vals then Inl OperationalError
      else case map_of vals ''id'' of
             None \<Rightarrow> store_row t (next_rowid t) vals
           | Some SqlNull \<Rightarrow> store_row t (next_rowid t) vals
           | Some (SqlInt i) \<Rightarrow> store_row t i vals
           | Some _ \<Rightarrow> Inl IntegrityError)"

fun insert_rows :: "table \<Rightarrow> (string \<times> sql_value) list list \<Rightarrow> sqlite_error + table" where
  "insert_rows t [] = Inr t"
| "insert_rows t (vals # rest) =
     (case insert_row t vals of Inl e \<Rightarrow> Inl e | Inr (t', rid) \<Rightarrow> insert_rows t' rest)"

text \<open>
  Lines 183-187: \<^verbatim>\<open>INSERT INTO name (cols) VALUES (?, ...)\<close>; the answer carries
  \<^verbatim>\<open>cursor.lastrowid\<close>.
\<close>

definition insert_values :: "string \<Rightarrow> (string \<times> sql_value) list \<Rightarrow> database \<Rightarrow> sqlite_error + database \<times> int" where
  "insert_values name vals db =
     (case db_tables db name of
        None \<Rightarrow> Inl OperationalError
      | Some t \<Rightarrow>
          (case insert_row t vals of
             Inl e \<Rightarrow> Inl e
           | Inr (t', rid) \<Rightarrow> Inr (db\<lparr>db_tables := (db_tables db)(name \<mapsto> t')\<rparr>, rid)))"

text \<open>
  Line 65: \<^verbatim>\<open>INSERT INTO dst (cols) SELECT cols FROM src\<close>. With no column at all the
  statement text is \<^verbatim>\<open>INSERT INTO entries () SELECT  FROM entries_old\<close>, a syntax error.
\<close>

definition insert_select :: "string \<Rightarrow> string list \<Rightarrow> string \<Rightarrow> database \<Rightarrow> sqlite_error + database" where
  "insert_select dst cols src db =
     (if cols = [] then Inl OperationalError
      else case (db_tables db dst, db_tables db src) of
             (Some d, Some s) \<Rightarrow>
               if \<not> list_all (\<lambda>c. c \<in> set (tbl_columns s)) cols then Inl OperationalError
               else (case insert_rows d (map (\<lambda>r. map (\<lambda>c. (c, cell r c)) cols) (tbl_rows s)) of
                       Inl e \<Rightarrow> Inl e
                     | Inr d' \<Rightarrow> Inr (db\<lparr>db_tables := (db_tables db)(dst \<mapsto> d')\<rparr>))
           | _ \<Rightarrow> Inl OperationalError)"

text \<open>Line 68: \<^verbatim>\<open>DROP TABLE name\<close>; the indexes of the table go with it.\<close>

definition drop_table :: "string \<Rightarrow> database \<Rightarrow> sqlite_error + database" where
  "drop_table name db =
     (case db_tables db name of
        None \<Rightarrow> Inl OperationalError
      | Some t \<Rightarrow>
          Inr (db\<lparr>db_tables := (db_tables db)(name := None),
                  db_indexes := filter (\<lambda>(i, tn, c). tn \<noteq> name) (db_indexes db)\<rparr>))"

text \<open>Lines 86-88: \<^verbatim>\<open>CREATE INDEX IF NOT EXISTS iname ON tname (col)\<close>.\<close>

definition create_index_if_not_exists :: "string \<Rightarrow> string \<Rightarrow> string \<Rightarrow> database \<Rightarrow> sqlite_error + database" where
  "create_index_if_not_exists iname tname col db =
     (if map_of (db_indexes db) iname \<noteq> None then Inr db
      else case db_tables db tname of
             None \<Rightarrow> Inl OperationalError
           | Some t \<Rightarrow>
               if col \<notin> set (tbl_columns t) \<or> db_tables db iname \<noteq> None then Inl OperationalError
               else Inr (db\<lparr>db_indexes := db_indexes db @ [(iname, tname, col)]\<rparr>))"

text \<open>Line 93: \<^verbatim>\<open>SELECT col FROM tname LIMIT 1\<close>; only its failure is looked at.\<close>

definition select_limit_1 :: "string \<Rightarrow> string \<Rightarrow> database \<Rightarrow> sqlite_error + unit" where
  "select_limit_1 col tname db =
     (case db_tables db tname of
        None \<Rightarrow> Inl OperationalError
      | Some t \<Rightarrow> if col \<in> set (tbl_columns t) then Inr () else Inl OperationalError)"

text \<open>
  Line 96: \<^verbatim>\<open>ALTER TABLE tname ADD COLUMN col TEXT\<close>. The rows are not rewritten: the
  new column reads NULL. SQLite puts the column's definition before the closing
  parenthesis of the stored text.
\<close>

definition alter_table_add_column :: "string \<Rightarrow> string \<Rightarrow> database \<Rightarrow> sqlite_error + database" where
  "alter_table_add_column tname col db =
     (case db_tables db tname of
        None \<Rightarrow> Inl OperationalError
      | Some t \<Rightarrow>
          if col \<in> set (tbl_columns t) then Inl OperationalError
          else Inr (db\<lparr>db_tables := (db_tables db)(tname \<mapsto>
                      t\<lparr>tbl_sql := butlast (tbl_sql t) @ '', '' @ col @ '' TEXT)'',
                        tbl_columns := tbl_columns t @ [col]\<rparr>)\<rparr>))"

text \<open>
  \<^verbatim>\<open>ORDER BY timestamp DESC\<close>. SQLite orders values of different storage classes as
  NULL, then integers by value, then text, then blobs, the last two bytewise. The rank
  below is that order. Rows with equal timestamps come in an order SQLite does not
  promise; the model fixes one (a later row first, as a backward scan of the index gives),
  and no theorem below depends on which.
\<close>

fun sort_rank :: "sql_value \<Rightarrow> nat \<times> int \<times> nat list" where
  "sort_rank SqlNull = (0, 0, [])"
| "sort_rank (SqlInt i) = (1, i, [])"
| "sort_rank (SqlText s) = (2, 0, map of_char s)"
| "sort_rank (SqlBlob b) = (3, 0, map unat b)"

definition order_by_timestamp_desc :: "row list \<Rightarrow> row list" where
  "order_by_timestamp_desc rows = rev (sort_key (\<lambda>r. sort_rank (cell r ''timestamp'')) rows)"

text \<open>
  Lines 118 and 152: \<^verbatim>\<open>SELECT cols FROM tname ORDER BY timestamp DESC\<close>, fetchall. A
  result row lists the selected columns with their values, in the order of the statement.
\<close>

definition select_order_by_timestamp_desc :: "string list \<Rightarrow> string \<Rightarrow> database \<Rightarrow> sqlite_error + (string \<times> sql_value) list list" where
  "select_order_by_timestamp_desc cols tname db =
     (case db_tables db tname of
        None \<Rightarrow> Inl OperationalError
      | Some t \<Rightarrow>
          if \<not> list_all (\<lambda>c. c \<in> set (tbl_columns t)) (''timestamp'' # cols)
          then Inl OperationalError
          else Inr (map (\<lambda>r. map (\<lambda>c. (c, cell r c)) cols)
                        (order_by_timestamp_desc (tbl_rows t))))"

subsection \<open>Connections and transactions\<close>

text \<open>
  Every function of the module works inside \<^verbatim>\<open>with sqlite3.connect(db_path) as conn\<close>.
  Python's connection opens a transaction before an INSERT and before no other statement
  issued here; a statement outside a transaction is committed at once. Leaving the
  \<^verbatim>\<open>with\<close> block commits, and leaving it by an exception rolls back. A connection is
  therefore the committed store and, inside a transaction, the store as the transaction
  sees it.
\<close>

record connection =
  committed :: database
  pending :: "database option"

definition view :: "connection \<Rightarrow> database" where
  "view c = (case pending c of None \<Rightarrow> committed c | Some d \<Rightarrow> d)"

text \<open>A statement that opens no transaction (DDL): on failure, the connection as it was.\<close>

definition exec_ddl :: "(database \<Rightarrow> sqlite_error + database) \<Rightarrow> connection \<Rightarrow> sqlite_error \<times> connection + connection" where
  "exec_ddl stmt c =
     (case stmt (view c) of
        Inl e \<Rightarrow> Inl (e, c)
      | Inr d \<Rightarrow> Inr (case pending c of None \<Rightarrow> c\<lparr>committed := d\<rparr> | Some _ \<Rightarrow> c\<lparr>pending := Some d\<rparr>))"

text \<open>An INSERT: the transaction is open from here on.\<close>

definition exec_dml :: "(database \<Rightarrow> sqlite_error + database) \<Rightarrow> connection \<Rightarrow> sqlite_error \<times> connection + connection" where
  "exec_dml stmt c =
     (case stmt (view c) of
        Inl e \<Rightarrow> Inl (e, c)
      | Inr d \<Rightarrow> Inr (c\<lparr>pending := Some d\<rparr>))"

definition commit :: "connection \<Rightarrow> connection" where
  "commit c = \<lparr>committed = view c, pending = None\<rparr>"

definition rollback :: "connection \<Rightarrow> connection" where
  "rollback c = c\<lparr>pending := None\<rparr>"

text \<open>
  The store can also fail for reasons the data does not decide: the file cannot be
  opened, it is locked, the disk is full. For the three functions that read and write
  entries such a failure is a parameter, naming the call that raises
  \<^verbatim>\<open>OperationalError\<close>. (\<^verbatim>\<open>create_db\<close> is modelled on a store that answers every
  statement; only the errors decided by the data are its branches.)
\<close>

datatype fault = NoFault | FailConnect | FailExecute | FailCommit

definition connect :: "fault \<Rightarrow> database \<Rightarrow> sqlite_error + connection" where
  "connect flt db =
     (if flt = FailConnect then Inl OperationalError
      else Inr \<lparr>committed = db, pending = None\<rparr>)"

definition execute_query :: "fault \<Rightarrow> (database \<Rightarrow> sqlite_error + 'a) \<Rightarrow> connection \<Rightarrow> sqlite_error + 'a" where
  "execute_query flt stmt c = (if flt = FailExecute then Inl OperationalError else stmt (view c))"

text \<open>The INSERT of \<^verbatim>\<open>insert_entry\<close>; the answer carries \<^verbatim>\<open>rowcount\<close> and \<^verbatim>\<open>lastrowid\<close>.\<close>

definition execute_insert :: "fault \<Rightarrow> string \<Rightarrow> (string \<times> sql_value) list \<Rightarrow> connection \<Rightarrow> sqlite_error \<times> connection + connection \<times> int \<times> int" where
  "execute_insert flt name vals c =
     (if flt = FailExecute then Inl (OperationalError, c)
      else case insert_values name vals (view c) of
             Inl e \<Rightarrow> Inl (e, c)
           | Inr (d, rid) \<Rightarrow> Inr (c\<lparr>pending := Some d\<rparr>, 1, rid))"

definition commit_checked :: "fault \<Rightarrow> connection \<Rightarrow> sqlite_error \<times> connection + connection" where
  "commit_checked flt c = (if flt = FailCommit then Inl (OperationalError, c) else Inr (commit c))"

subsection \<open>\<^verbatim>\<open>create_db\<close> (lines 13-102)\<close>

text \<open>The three \<^verbatim>\<open>print\<close> calls of \<^verbatim>\<open>create_db\<close>, in the order they happen.\<close>

datatype log_event = DetectedLegacy | MigrationComplete | DatabaseError sqlite_error

text \<open>Lines 26-31: the test on the stored definition.\<close>

definition migration_needed :: "string option \<Rightarrow> bool" where
  "migration_needed result =
     (case result of
        None \<Rightarrow> False
      | Some create_sql \<Rightarrow> is_substring ''timestamp INTEGER UNIQUE'' create_sql)"

text \<open>Lines 34-68: rename, create, copy the common columns, drop.\<close>

definition migrate :: "connection \<Rightarrow> sqlite_error \<times> connection + connection" where
  "migrate c0 =
     and_then (exec_ddl (alter_table_rename ''entries'' ''entries_old'') c0) (\<lambda>c1.
     and_then (exec_ddl (create_table ''entries'') c1) (\<lambda>c2.
       let columns_old = pragma_table_info ''entries_old'' (view c2);
           common_columns = filter (\<lambda>col. col \<in> set columns_old) entries_columns
       in
     and_then (exec_dml (insert_select ''entries'' common_columns ''entries_old'') c2) (\<lambda>c3.
     exec_ddl (drop_table ''entries_old'') c3)))"

text \<open>
  Lines 92-98: the read of \<^verbatim>\<open>filename\<close>, the ALTER TABLE when the read raises
  \<^verbatim>\<open>OperationalError\<close>, and the \<^verbatim>\<open>pass\<close> when the ALTER TABLE raises it too.
\<close>

definition ensure_filename :: "connection \<Rightarrow> sqlite_error \<times> connection + connection" where
  "ensure_filename c =
     (case select_limit_1 ''filename'' ''entries'' (view c) of
        Inr u \<Rightarrow> Inr c
      | Inl OperationalError \<Rightarrow>
          (case exec_ddl (alter_table_add_column ''entries'' ''filename'') c of
             Inr c' \<Rightarrow> Inr c'
           | Inl (OperationalError, c') \<Rightarrow> Inr c
           | Inl (e, c') \<Rightarrow> Inl (e, c'))
      | Inl e \<Rightarrow> Inl (e, c))"

text \<open>
  The function returns nothing; the model returns the store it leaves behind and what it
  printed. An exception inside the \<^verbatim>\<open>with\<close> block rolls the open transaction back
  (what was committed before stays) and is caught at line 101.
\<close>

definition create_db :: "database \<Rightarrow> database \<times> log_event list" where
  "create_db db =
     (let conn = \<lparr>committed = db, pending = None\<rparr>;
          result = select_table_sql ''entries'' (view conn);
          needed = migration_needed result;
          log0 = (if needed then [DetectedLegacy] else [])
      in case (if needed then migrate conn
               else exec_ddl (create_table_if_not_exists ''entries'') conn) of
           Inl (e, c) \<Rightarrow> (committed (rollback c), log0 @ [DatabaseError e])
         | Inr c4 \<Rightarrow>
             (let log1 = log0 @ (if needed then [MigrationComplete] else [])
              in case and_then
                        (exec_ddl (create_index_if_not_exists ''idx_timestamp'' ''entries''
                                     ''timestamp'') c4)
                        ensure_filename of
                   Inl (e, c) \<Rightarrow> (committed (rollback c), log1 @ [DatabaseError e])
                 | Inr c6 \<Rightarrow> (committed (commit c6), log1)))"

subsection \<open>\<^verbatim>\<open>get_all_entries\<close> (lines 105-136) and \<^verbatim>\<open>get_timestamps\<close> (lines 139-157)\<close>

text \<open>
  The namedtuple \<^verbatim>\<open>Entry\<close>. Six fields hold what the query returned for the column;
  \<^verbatim>\<open>embedding\<close> holds the decoded array.
\<close>

record entry =
  entry_id :: sql_value
  entry_app :: sql_value
  entry_title :: sql_value
  entry_text :: sql_value
  entry_timestamp :: sql_value
  entry_embedding :: "float32 list"
  entry_filename :: sql_value

text \<open>
  \<^verbatim>\<open>np.frombuffer(blob, dtype=np.float32)\<close>: \<^verbatim>\<open>ValueError\<close> when the size of the buffer
  is not a multiple of the element size, \<^verbatim>\<open>TypeError\<close> when the value is no buffer
  (\<^verbatim>\<open>None\<close>, an \<^verbatim>\<open>int\<close>, a \<^verbatim>\<open>str\<close>).
\<close>

fun frombuffer :: "sql_value \<Rightarrow> py_error + float32 list" where
  "frombuffer (SqlBlob bs) = (if length bs mod 4 \<noteq> 0 then Inl ValueError else Inr (unpack bs))"
| "frombuffer v = Inl TypeError"

text \<open>\<^verbatim>\<open>row[name]\<close> on a \<^verbatim>\<open>sqlite3.Row\<close>: \<^verbatim>\<open>IndexError\<close> when the row has no such key.\<close>

definition row_get :: "(string \<times> sql_value) list \<Rightarrow> string \<Rightarrow> py_error + sql_value" where
  "row_get row name = (case map_of row name of None \<Rightarrow> Inl IndexError | Some v \<Rightarrow> Inr v)"

text \<open>Lines 122-132, the body of the loop.\<close>

definition make_entry :: "(string \<times> sql_value) list \<Rightarrow> py_error + entry" where
  "make_entry row =
     and_then (row_get row ''embedding'') (\<lambda>blob.
     and_then (frombuffer blob) (\<lambda>embedding.
     and_then (row_get row ''id'') (\<lambda>i.
     and_then (row_get row ''app'') (\<lambda>app.
     and_then (row_get row ''title'') (\<lambda>title.
     and_then (row_get row ''text'') (\<lambda>txt.
     and_then (row_get row ''timestamp'') (\<lambda>timestamp.
     and_then (if ''filename'' \<in> set (map fst row) then row_get row ''filename''
               else Inr SqlNull) (\<lambda>filename.
     Inr \<lparr>entry_id = i, entry_app = app, entry_title = title, entry_text = txt,
          entry_timestamp = timestamp, entry_embedding = embedding,
          entry_filename = filename\<rparr>))))))))"

text \<open>Lines 120-133, the loop: \<open>entries\<close> is the list built so far.\<close>

fun build_entries :: "(string \<times> sql_value) list list \<Rightarrow> entry list \<Rightarrow> py_error + entry list" where
  "build_entries [] entries = Inr entries"
| "build_entries (row # results) entries =
     (case make_entry row of
        Inl e \<Rightarrow> Inl e
      | Inr en \<Rightarrow> build_entries results (entries @ [en]))"

text \<open>
  A \<^verbatim>\<open>sqlite3.Error\<close> from \<^verbatim>\<open>connect\<close> or \<^verbatim>\<open>execute\<close> is caught at line 134 and the
  empty list is returned; an exception of the loop is no \<^verbatim>\<open>sqlite3.Error\<close> and leaves
  the function.
\<close>

definition get_all_entries :: "fault \<Rightarrow> database \<Rightarrow> entry list outcome" where
  "get_all_entries flt db =
     (case connect flt db of
        Inl e \<Rightarrow> Returns []
      | Inr conn \<Rightarrow>
          (case execute_query flt (select_order_by_timestamp_desc entries_columns ''entries'') conn of
             Inl e \<Rightarrow> Returns []
           | Inr results \<Rightarrow>
               (case build_entries results [] of
                  Inl e \<Rightarrow> Raises e
                | Inr entries \<Rightarrow> Returns entries)))"

definition get_timestamps :: "fault \<Rightarrow> database \<Rightarrow> sql_value list" where
  "get_timestamps flt db =
     (case connect flt db of
        Inl e \<Rightarrow> []
      | Inr conn \<Rightarrow>
          (case execute_query flt (select_order_by_timestamp_desc [''timestamp''] ''entries'') conn of
             Inl e \<Rightarrow> []
           | Inr results \<Rightarrow> map (\<lambda>result. snd (result ! 0)) results))"

subsection \<open>\<^verbatim>\<open>insert_entry\<close> (lines 160-198)\<close>

text \<open>
  The embedding is encoded at line 178, before the \<^verbatim>\<open>try\<close>. The row is inserted and
  committed inside it; \<^verbatim>\<open>None\<close> is returned when a \<^verbatim>\<open>sqlite3.Error\<close> was caught. The
  model returns the store left behind together with the result.
\<close>

text \<open>
  Lines 184-186: the six columns of the INSERT with the tuple bound to them. The type
  hints give the Python types; \<^verbatim>\<open>filename\<close> defaults to \<^verbatim>\<open>None\<close>.
\<close>

definition insert_parameters :: "string \<Rightarrow> int \<Rightarrow> byte list \<Rightarrow> string \<Rightarrow> string \<Rightarrow> string option \<Rightarrow> (string \<times> sql_value) list" where
  "insert_parameters txt timestamp embedding_bytes app title filename =
     [(''text'', SqlText txt), (''timestamp'', SqlInt timestamp),
      (''embedding'', SqlBlob embedding_bytes), (''app'', SqlText app),
      (''title'', SqlText title),
      (''filename'', case filename of None \<Rightarrow> SqlNull | Some f \<Rightarrow> SqlText f)]"

definition insert_entry ::
  "('f \<Rightarrow> float32) \<Rightarrow> fault \<Rightarrow> database \<Rightarrow> string \<Rightarrow> int \<Rightarrow> 'f embedding_arg \<Rightarrow> string \<Rightarrow> string \<Rightarrow> string option \<Rightarrow> database \<times> int option outcome" where
  "insert_entry to_f32 flt db txt timestamp embedding app title filename =
     (case encode_embedding to_f32 embedding of
        Inl e \<Rightarrow> (db, Raises e)
      | Inr embedding_bytes \<Rightarrow>
          (case connect flt db of
             Inl e \<Rightarrow> (db, Returns None)
           | Inr conn \<Rightarrow>
               (case execute_insert flt ''entries''
                       (insert_parameters txt timestamp embedding_bytes app title filename)
                       conn of
                  Inl (e, c) \<Rightarrow> (committed (rollback c), Returns None)
                | Inr (c1, rowcount, lastrowid) \<Rightarrow>
                    (case commit_checked flt c1 of
                       Inl (e, c) \<Rightarrow> (committed (rollback c), Returns None)
                     | Inr c2 \<Rightarrow>
                         (committed (commit c2),
                          Returns (if rowcount > 0 then Some lastrowid else None))))))"

subsection \<open>Notions the properties are stated with\<close>

text \<open>
  The current shape of the table (section 6 of the specification): the seven columns,
  the definition text of the CREATE statement, no uniqueness on any column.
\<close>

definition current_shape :: "table \<Rightarrow> bool" where
  "current_shape t =
     (tbl_sql t = entries_sql \<and> tbl_columns t = entries_columns \<and> tbl_unique t = [])"

text \<open>
  A blob that decodes: its length is a multiple of 4. A table whose every row holds such
  a blob in \<^verbatim>\<open>embedding\<close> is what \<^verbatim>\<open>insert_entry\<close> leaves behind (shown below).
\<close>

definition blob_ok :: "sql_value \<Rightarrow> bool" where
  "blob_ok v = (case v of SqlBlob bs \<Rightarrow> length bs mod 4 = 0 | _ \<Rightarrow> False)"

definition embeddings_ok :: "table \<Rightarrow> bool" where
  "embeddings_ok t = list_all (\<lambda>r. blob_ok (cell r ''embedding'')) (tbl_rows t)"

text \<open>The entry that a stored row stands for: each field from its column, the blob decoded.\<close>

definition entry_of_row :: "row \<Rightarrow> entry" where
  "entry_of_row r =
     \<lparr>entry_id = cell r ''id'', entry_app = cell r ''app'', entry_title = cell r ''title'',
      entry_text = cell r ''text'', entry_timestamp = cell r ''timestamp'',
      entry_embedding = (case cell r ''embedding'' of SqlBlob bs \<Rightarrow> unpack bs | _ \<Rightarrow> []),
      entry_filename = cell r ''filename''\<rparr>"

text \<open>The timestamps the table holds, in the order of the rows.\<close>

definition stored_timestamps :: "database \<Rightarrow> sql_value list" where
  "stored_timestamps db =
     (case db_tables db ''entries'' of
        None \<Rightarrow> []
      | Some t \<Rightarrow>
          if ''timestamp'' \<in> set (tbl_columns t)
          then map (\<lambda>r. cell r ''timestamp'') (tbl_rows t) else [])"

text \<open>
  Descending order of values, in the order of the store; on integers it is the order of
  the integers.
\<close>

definition sql_le :: "sql_value \<Rightarrow> sql_value \<Rightarrow> bool" where
  "sql_le a b = (sort_rank a \<le> sort_rank b)"

definition descending :: "sql_value list \<Rightarrow> bool" where
  "descending vs = sorted_wrt (\<lambda>a b. sql_le b a) vs"



subsection \<open>Stores used as examples\<close>

text \<open>
  A legacy definition of the table, with the uniqueness constraint on \<^verbatim>\<open>timestamp\<close>: one
  without the column \<^verbatim>\<open>filename\<close>, and one to which the column was added later.
\<close>

definition legacy_sql :: string where
  "legacy_sql =
     ''CREATE TABLE entries (id INTEGER PRIMARY KEY AUTOINCREMENT, app TEXT, title TEXT, '' @
     ''text TEXT, timestamp INTEGER UNIQUE, embedding BLOB)''"

definition legacy_table :: "row list \<Rightarrow> table" where
  "legacy_table rows =
     \<lparr>tbl_sql = legacy_sql,
      tbl_columns = [''id'', ''app'', ''title'', ''text'', ''timestamp'', ''embedding''],
      tbl_unique = [''timestamp''], tbl_rows = rows,
      tbl_seq = fold max (map rowid rows) 0\<rparr>"

definition legacy_store :: "row list \<Rightarrow> database" where
  "legacy_store rows = \<lparr>db_tables = [''entries'' \<mapsto> legacy_table rows], db_indexes = []\<rparr>"

definition legacy_store_filename :: "row list \<Rightarrow> database" where
  "legacy_store_filename rows =
     \<lparr>db_tables = [''entries'' \<mapsto>
        \<lparr>tbl_sql = butlast legacy_sql @ '', filename TEXT)'',
         tbl_columns = entries_columns,
         tbl_unique = [''timestamp''], tbl_rows = rows,
         tbl_seq = fold max (map rowid rows) 0\<rparr>],
      db_indexes = []\<rparr>"



text \<open>A store in the current shape.\<close>

definition current_store :: "row list \<Rightarrow> database" where
  "current_store rows =
     \<lparr>db_tables = [''entries'' \<mapsto>
        new_entries_table\<lparr>tbl_rows := rows, tbl_seq := fold max (map rowid rows) 0\<rparr>],
      db_indexes = [(''idx_timestamp'', ''entries'', ''timestamp'')]\<rparr>"

text \<open>Rows: a capture with a screenshot, one without, and one whose blob has 3 bytes.\<close>

definition sample_row :: "int \<Rightarrow> int \<Rightarrow> row" where
  "sample_row i ts =
     \<lparr>rowid = i,
      cells = insert_parameters ''hello'' ts [0, 0, 0x80, 0x3F] ''Notes'' ''Untitled''
                (Some ''shot1.png'')\<rparr>"

definition sample_row_no_filename :: "int \<Rightarrow> int \<Rightarrow> row" where
  "sample_row_no_filename i ts =
     \<lparr>rowid = i,
      cells = [(''text'', SqlText ''hello''), (''timestamp'', SqlInt ts),
               (''embedding'', SqlBlob [0, 0, 0x80, 0x3F]), (''app'', SqlText ''Notes''),
               (''title'', SqlText ''Untitled'')]\<rparr>"

definition malformed_row :: "int \<Rightarrow> int \<Rightarrow> row" where
  "malformed_row i ts =
     \<lparr>rowid = i,
      cells = insert_parameters ''hello'' ts [1, 2, 3] ''Notes'' ''Untitled'' None\<rparr>"

section \<open>Properties\<close>

subsection \<open>The vector codec\<close>

lemma f32_bytes_inverse:
  "f32_of_bytes (ucast w) (ucast (drop_bit 8 w)) (ucast (drop_bit 16 w)) (ucast (drop_bit 24 w)) = w"
proof (rule bit_word_eqI)
  fix n :: nat
  assume "n < LENGTH(32)"
  then consider "n < 8" | "8 \<le> n" "n < 16" | "16 \<le> n" "n < 24" | "24 \<le> n" "n < 32"
    by fastforce
  then show "bit (f32_of_bytes (ucast w) (ucast (drop_bit 8 w)) (ucast (drop_bit 16 w))
      (ucast (drop_bit 24 w))) n = bit w n"
    by cases (auto simp add: f32_of_bytes_def bit_simps)
qed

lemma unpack_tobytes: "unpack (tobytes fs) = fs"
  by (induction fs) (simp_all add: tobytes_def f32_to_bytes_def f32_bytes_inverse)

lemma length_tobytes: "length (tobytes fs) = 4 * length fs"
  by (induction fs) (simp_all add: tobytes_def f32_to_bytes_def)

lemma astype_float32_Num: "astype_float32 to_f32 (map Num v) = Inr (map to_f32 v)"
  by (induction v) simp_all

lemma astype_float32_length: "astype_float32 to_f32 xs = Inr fs \<Longrightarrow> length fs = length xs"
  by (induction to_f32 xs arbitrary: fs rule: astype_float32.induct) (auto split: sum.splits)

lemma encode_embedding_length:
  "encode_embedding to_f32 (Ndarray xs) = Inr bs \<Longrightarrow> length bs = 4 * length xs"
  by (auto split: sum.splits simp: length_tobytes dest: astype_float32_length)

text \<open>
  Claim C1. For every vector \<open>v\<close> of numbers, of any length, the encoding step of
  \<^verbatim>\<open>insert_entry\<close> succeeds and gives the bytes of the float32 form of \<open>v\<close>, and
  decoding these bytes as \<^verbatim>\<open>get_all_entries\<close> does gives back the float32 form of
  \<open>v\<close>: \<open>decode (encode v)\<close> is \<open>v\<close> coerced to float32, element by element.
\<close>

theorem embedding_round_trip:
  "encode_embedding to_f32 (Ndarray (map Num v)) = Inr (tobytes (map to_f32 v)) \<and>
   frombuffer (SqlBlob (tobytes (map to_f32 v))) = Inr (map to_f32 v)"
  by (simp add: astype_float32_Num length_tobytes unpack_tobytes)

subsection \<open>Inserting\<close>

lemma fold_max_ge: "(a::int) \<le> fold max xs a"
  by (induction xs arbitrary: a) (auto intro: order_trans [OF max.cobounded2])

lemma fold_max_mem: "x \<in> set xs \<Longrightarrow> (x::int) \<le> fold max xs a"
proof (induction xs arbitrary: a)
  case Nil
  then show ?case by simp
next
  case (Cons y ys)
  show ?case
  proof (cases "x = y")
    case True
    have "max y a \<le> fold max ys (max y a)" by (rule fold_max_ge)
    with True show ?thesis by simp
  next
    case False
    with Cons show ?thesis by simp
  qed
qed

lemma next_rowid_fresh: "r \<in> set (tbl_rows t) \<Longrightarrow> rowid r < next_rowid t"
  using fold_max_mem [of "rowid r" "map rowid (tbl_rows t)" 0]
  by (simp add: next_rowid_def)

lemma next_rowid_not_stored: "\<not> list_ex (\<lambda>r. rowid r = next_rowid t) (tbl_rows t)"
  using next_rowid_fresh [of _ t] by (fastforce simp: list_ex_iff)

lemma map_of_insert_parameters_id:
  "map_of (insert_parameters txt ts bs app title fn) ''id'' = None"
  by (simp add: insert_parameters_def)

lemma filter_insert_parameters:
  "filter (\<lambda>(c, v). c \<noteq> ''id'') (insert_parameters txt ts bs app title fn) =
   insert_parameters txt ts bs app title fn"
  by (simp add: insert_parameters_def)

lemma insert_row_parameters:
  "insert_row t (insert_parameters txt ts bs app title fn) =
     (if \<not> list_all (\<lambda>(c, v). c \<in> set (tbl_columns t)) (insert_parameters txt ts bs app title fn)
      then Inl OperationalError
      else if unique_clash t (insert_parameters txt ts bs app title fn) then Inl IntegrityError
      else Inr (t\<lparr>tbl_rows := tbl_rows t @
                   [\<lparr>rowid = next_rowid t, cells = insert_parameters txt ts bs app title fn\<rparr>],
                 tbl_seq := max (tbl_seq t) (next_rowid t)\<rparr>, next_rowid t))"
  by (simp add: insert_row_def store_row_def map_of_insert_parameters_id
      filter_insert_parameters next_rowid_not_stored)

lemma insert_entry_raises:
  "encode_embedding to_f32 embedding = Inl e \<Longrightarrow>
   insert_entry to_f32 flt db txt ts embedding app title fn = (db, Raises e)"
  by (simp add: insert_entry_def)

lemma insert_entry_fault:
  "encode_embedding to_f32 embedding = Inr bs \<Longrightarrow> flt \<noteq> NoFault \<Longrightarrow>
   insert_entry to_f32 flt db txt ts embedding app title fn = (db, Returns None)"
  by (cases flt)
     (auto simp add: insert_entry_def connect_def execute_insert_def commit_checked_def
       rollback_def view_def split: sum.splits prod.splits)

lemma insert_entry_no_fault:
  "encode_embedding to_f32 embedding = Inr bs \<Longrightarrow>
   insert_entry to_f32 NoFault db txt ts embedding app title fn =
     (case insert_values ''entries'' (insert_parameters txt ts bs app title fn) db of
        Inl e \<Rightarrow> (db, Returns None)
      | Inr (d, rid) \<Rightarrow> (d, Returns (Some rid)))"
  by (auto simp add: insert_entry_def connect_def execute_insert_def commit_checked_def
       rollback_def commit_def view_def split: sum.splits prod.splits)

lemma insert_entry_current:
  assumes "db_tables db ''entries'' = Some t"
    and "tbl_columns t = entries_columns" and "tbl_unique t = []"
    and "encode_embedding to_f32 embedding = Inr bs"
  shows "insert_entry to_f32 NoFault db txt ts embedding app title fn =
     (db\<lparr>db_tables := (db_tables db)(''entries'' \<mapsto>
         t\<lparr>tbl_rows := tbl_rows t @
               [\<lparr>rowid = next_rowid t, cells = insert_parameters txt ts bs app title fn\<rparr>],
           tbl_seq := max (tbl_seq t) (next_rowid t)\<rparr>)\<rparr>,
      Returns (Some (next_rowid t)))"
proof -
  have cols: "list_all (\<lambda>(c, v). c \<in> set (tbl_columns t)) (insert_parameters txt ts bs app title fn)"
    using assms(2) by (simp add: insert_parameters_def entries_columns_def)
  have uniq: "\<not> unique_clash t (insert_parameters txt ts bs app title fn)"
    using assms(3) by (simp add: unique_clash_def)
  show ?thesis
    using assms(1,4) cols uniq
    by (simp add: insert_entry_no_fault insert_values_def insert_row_parameters)
qed

subsection \<open>Reading\<close>

lemma set_order_by_timestamp_desc: "set (order_by_timestamp_desc rows) = set rows"
  by (simp add: order_by_timestamp_desc_def)

lemma mset_order_by_timestamp_desc: "mset (order_by_timestamp_desc rows) = mset rows"
  by (simp add: order_by_timestamp_desc_def)

lemma descending_order_by_timestamp_desc:
  "descending (map (\<lambda>r. cell r ''timestamp'') (order_by_timestamp_desc rows))"
proof -
  have "sorted (map (\<lambda>r. sort_rank (cell r ''timestamp''))
          (sort_key (\<lambda>r. sort_rank (cell r ''timestamp'')) rows))"
    by (rule sorted_sort_key)
  then show ?thesis
    by (simp add: descending_def sql_le_def order_by_timestamp_desc_def sorted_wrt_map
        sorted_wrt_rev)
qed

lemma sql_le_int: "sql_le (SqlInt i) (SqlInt j) = (i \<le> j)"
  by (auto simp add: sql_le_def less_eq_prod_def)

lemma get_timestamps_eq:
  "get_timestamps flt db =
     (if flt = FailConnect \<or> flt = FailExecute then []
      else case db_tables db ''entries'' of
             None \<Rightarrow> []
           | Some t \<Rightarrow>
               if ''timestamp'' \<in> set (tbl_columns t)
               then map (\<lambda>r. cell r ''timestamp'') (order_by_timestamp_desc (tbl_rows t))
               else [])"
  by (auto simp add: get_timestamps_def connect_def execute_query_def view_def
      select_order_by_timestamp_desc_def comp_def split: option.splits)

lemma descending_get_timestamps: "descending (get_timestamps flt db)"
  by (simp add: get_timestamps_eq descending_order_by_timestamp_desc split: option.splits)
     (simp add: descending_def)

lemma mset_get_timestamps: "mset (get_timestamps NoFault db) = mset (stored_timestamps db)"
proof -
  have "mset (map f (order_by_timestamp_desc rows)) = mset (map f rows)" for f :: "row \<Rightarrow> sql_value" and rows
    using mset_order_by_timestamp_desc [of rows] by (metis mset_map)
  then show ?thesis
    by (simp add: get_timestamps_eq stored_timestamps_def split: option.splits)
qed

lemma make_entry_selected:
  "make_entry (map (\<lambda>c. (c, cell r c)) entries_columns) =
     (case frombuffer (cell r ''embedding'') of
        Inl e \<Rightarrow> Inl e
      | Inr embedding \<Rightarrow> Inr ((entry_of_row r)\<lparr>entry_embedding := embedding\<rparr>))"
  by (simp add: make_entry_def entries_columns_def row_get_def and_then_def entry_of_row_def
      split: sum.splits)

lemma frombuffer_ok: "blob_ok v \<Longrightarrow> frombuffer v = Inr (case v of SqlBlob bs \<Rightarrow> unpack bs | _ \<Rightarrow> [])"
  by (cases v) (simp_all add: blob_ok_def)

lemma frombuffer_not_ok: "\<not> blob_ok v \<Longrightarrow> frombuffer v = Inl ValueError \<or> frombuffer v = Inl TypeError"
  by (cases v) (simp_all add: blob_ok_def)

lemma make_entry_ok:
  "blob_ok (cell r ''embedding'') \<Longrightarrow>
   make_entry (map (\<lambda>c. (c, cell r c)) entries_columns) = Inr (entry_of_row r)"
  by (simp add: make_entry_selected frombuffer_ok) (simp add: entry_of_row_def)

lemma make_entry_not_ok:
  "\<not> blob_ok (cell r ''embedding'') \<Longrightarrow>
   make_entry (map (\<lambda>c. (c, cell r c)) entries_columns) = Inl ValueError \<or>
   make_entry (map (\<lambda>c. (c, cell r c)) entries_columns) = Inl TypeError"
  using frombuffer_not_ok [of "cell r ''embedding''"]
  by (auto simp add: make_entry_selected)

lemma build_entries_ok:
  "list_all (\<lambda>r. blob_ok (cell r ''embedding'')) rows \<Longrightarrow>
   build_entries (map (\<lambda>r. map (\<lambda>c. (c, cell r c)) entries_columns) rows) acc =
     Inr (acc @ map entry_of_row rows)"
  by (induction rows arbitrary: acc) (simp_all add: make_entry_ok)

lemma build_entries_not_ok:
  "\<not> list_all (\<lambda>r. blob_ok (cell r ''embedding'')) rows \<Longrightarrow>
   build_entries (map (\<lambda>r. map (\<lambda>c. (c, cell r c)) entries_columns) rows) acc = Inl ValueError \<or>
   build_entries (map (\<lambda>r. map (\<lambda>c. (c, cell r c)) entries_columns) rows) acc = Inl TypeError"
proof (induction rows arbitrary: acc)
  case Nil
  then show ?case by simp
next
  case (Cons r rows)
  show ?case
  proof (cases "blob_ok (cell r ''embedding'')")
    case True
    with Cons show ?thesis by (simp add: make_entry_ok)
  next
    case False
    from make_entry_not_ok [OF this] show ?thesis by auto
  qed
qed

lemma embeddings_ok_order_by:
  "list_all (\<lambda>r. blob_ok (cell r ''embedding'')) (order_by_timestamp_desc rows) = 
   list_all (\<lambda>r. blob_ok (cell r ''embedding'')) rows"
  by (simp add: list_all_iff set_order_by_timestamp_desc)

lemma select_all_columns:
  "db_tables db ''entries'' = Some t \<Longrightarrow> set entries_columns \<subseteq> set (tbl_columns t) \<Longrightarrow>
   select_order_by_timestamp_desc entries_columns ''entries'' db =
     Inr (map (\<lambda>r. map (\<lambda>c. (c, cell r c)) entries_columns) (order_by_timestamp_desc (tbl_rows t)))"
  by (auto simp add: select_order_by_timestamp_desc_def list_all_iff entries_columns_def)

lemma get_all_entries_ok:
  assumes "db_tables db ''entries'' = Some t" and "set entries_columns \<subseteq> set (tbl_columns t)"
    and "embeddings_ok t"
  shows "get_all_entries NoFault db =
           Returns (map entry_of_row (order_by_timestamp_desc (tbl_rows t)))"
  using assms
  by (simp add: get_all_entries_def connect_def execute_query_def view_def select_all_columns
      build_entries_ok embeddings_ok_order_by embeddings_ok_def)

lemma get_all_entries_malformed:
  assumes "db_tables db ''entries'' = Some t" and "set entries_columns \<subseteq> set (tbl_columns t)"
    and "\<not> embeddings_ok t" and "flt \<noteq> FailConnect" and "flt \<noteq> FailExecute"
  shows "get_all_entries flt db = Raises ValueError \<or> get_all_entries flt db = Raises TypeError"
proof -
  have "\<not> list_all (\<lambda>r. blob_ok (cell r ''embedding'')) (order_by_timestamp_desc (tbl_rows t))"
    using assms(3) by (simp add: embeddings_ok_order_by embeddings_ok_def)
  from build_entries_not_ok [OF this, of "[]"] show ?thesis
    using assms(1,2,4,5)
    by (auto simp add: get_all_entries_def connect_def execute_query_def view_def select_all_columns)
qed

lemma get_all_entries_missing_column:
  assumes "db_tables db ''entries'' = Some t" and "\<not> set entries_columns \<subseteq> set (tbl_columns t)"
  shows "get_all_entries flt db = Returns []"
  using assms
  by (auto simp add: get_all_entries_def connect_def execute_query_def view_def
      select_order_by_timestamp_desc_def list_all_iff)

lemma get_all_entries_no_table:
  "db_tables db ''entries'' = None \<Longrightarrow> get_all_entries flt db = Returns []"
  by (auto simp add: get_all_entries_def connect_def execute_query_def view_def
      select_order_by_timestamp_desc_def)

lemma get_all_entries_fault:
  "flt = FailConnect \<or> flt = FailExecute \<Longrightarrow> get_all_entries flt db = Returns []"
  by (auto simp add: get_all_entries_def connect_def execute_query_def)

lemma get_all_entries_commit_fault:
  "flt \<noteq> FailConnect \<Longrightarrow> flt \<noteq> FailExecute \<Longrightarrow>
   get_all_entries flt db = get_all_entries NoFault db"
  by (simp add: get_all_entries_def connect_def execute_query_def)

text \<open>When the calls of lines 115 and 118 raise nothing, the table has the selected columns.\<close>

lemma select_answered:
  assumes "connect flt db = Inr conn"
    and "execute_query flt (select_order_by_timestamp_desc entries_columns ''entries'') conn =
           Inr results"
    and "db_tables db ''entries'' = Some t"
  shows "flt \<noteq> FailConnect \<and> flt \<noteq> FailExecute \<and>
         set entries_columns \<subseteq> set (tbl_columns t)"
  using assms
  by (auto simp add: connect_def execute_query_def view_def select_order_by_timestamp_desc_def
      list_all_iff split: if_splits)

subsection \<open>Store errors and encoding errors in \<^verbatim>\<open>insert_entry\<close>\<close>

lemma sample_encode:
  "encode_embedding (\<lambda>x. x) (Ndarray [Num 0x3F800000]) = Inr [0, 0, 0x80, 0x3F]"
  by (simp add: tobytes_def f32_to_bytes_def)

lemma duplicate_refused:
  "insert_values ''entries''
     (insert_parameters ''hello'' 1000 [0, 0, 0x80, 0x3F] ''Notes'' ''Untitled'' None)
     (legacy_store_filename [sample_row 1 1000]) = Inl IntegrityError"
  by (simp add: insert_values_def legacy_store_filename_def insert_row_parameters)
     (simp add: insert_parameters_def entries_columns_def unique_clash_def sample_row_def cell_def)

text \<open>
  Claim C6. When the encoding has succeeded and the store raises during the call (an
  injected failure of \<^verbatim>\<open>connect\<close>, \<^verbatim>\<open>execute\<close> or \<^verbatim>\<open>commit\<close>, or the INSERT itself
  refused by the store, with any \<^verbatim>\<open>sqlite3.Error\<close>), \<^verbatim>\<open>insert_entry\<close> returns
  \<^verbatim>\<open>None\<close>, raises nothing, and leaves the store exactly as it was.
\<close>

theorem insert_entry_store_error:
  assumes "encode_embedding to_f32 embedding = Inr bs"
    and "flt \<noteq> NoFault \<or>
         insert_values ''entries'' (insert_parameters txt ts bs app title fn) db = Inl e"
  shows "insert_entry to_f32 flt db txt ts embedding app title fn = (db, Returns None)"
proof (cases "flt = NoFault")
  case True
  with assms show ?thesis by (simp add: insert_entry_no_fault)
next
  case False
  with assms(1) show ?thesis by (simp add: insert_entry_fault)
qed

theorem insert_entry_store_error_witness:
  "insert_entry (\<lambda>x. x) FailCommit (current_store [sample_row 1 1000]) ''hello'' 1000
     (Ndarray [Num 0x3F800000]) ''Notes'' ''Untitled'' None
     = (current_store [sample_row 1 1000], Returns None) \<and>
   insert_entry (\<lambda>x. x) NoFault (legacy_store_filename [sample_row 1 1000]) ''hello'' 1000
     (Ndarray [Num 0x3F800000]) ''Notes'' ''Untitled'' None
     = (legacy_store_filename [sample_row 1 1000], Returns None)"
proof
  show "insert_entry (\<lambda>x. x) FailCommit (current_store [sample_row 1 1000]) ''hello'' 1000
     (Ndarray [Num 0x3F800000]) ''Notes'' ''Untitled'' None
     = (current_store [sample_row 1 1000], Returns None)"
    by (rule insert_entry_store_error [OF sample_encode]) simp
  show "insert_entry (\<lambda>x. x) NoFault (legacy_store_filename [sample_row 1 1000]) ''hello'' 1000
     (Ndarray [Num 0x3F800000]) ''Notes'' ''Untitled'' None
     = (legacy_store_filename [sample_row 1 1000], Returns None)"
    by (rule insert_entry_store_error [OF sample_encode]) (simp add: duplicate_refused)
qed

text \<open>
  Claim C10. The encoding happens before the guarded region: whenever the float32
  coercion or the byte packing of the embedding argument fails with an error \<open>e\<close>,
  \<^verbatim>\<open>insert_entry\<close> raises \<open>e\<close> to its caller (it does not return \<^verbatim>\<open>None\<close>), whatever
  the store does, and the store is untouched.
\<close>

theorem insert_entry_encoding_error:
  "encode_embedding to_f32 embedding = Inl e \<Longrightarrow>
   insert_entry to_f32 flt db txt ts embedding app title fn = (db, Raises e)"
  by (simp add: insert_entry_def)

theorem insert_entry_encoding_error_witness:
  "insert_entry (\<lambda>x::float32. x) NoFault (current_store []) ''hello'' 1000
     (Ndarray [Num 1, NonNumeric]) ''Notes'' ''Untitled'' None
     = (current_store [], Raises ValueError) \<and>
   insert_entry (\<lambda>x::float32. x) NoFault (current_store []) ''hello'' 1000
     NotAnArray ''Notes'' ''Untitled'' None
     = (current_store [], Raises AttributeError)"
proof
  show "insert_entry (\<lambda>x::float32. x) NoFault (current_store []) ''hello'' 1000
     (Ndarray [Num 1, NonNumeric]) ''Notes'' ''Untitled'' None
     = (current_store [], Raises ValueError)"
    by (rule insert_entry_encoding_error) simp
  show "insert_entry (\<lambda>x::float32. x) NoFault (current_store []) ''hello'' 1000
     NotAnArray ''Notes'' ''Untitled'' None
     = (current_store [], Raises AttributeError)"
    by (rule insert_entry_encoding_error) simp
qed

subsection \<open>What a successful insert leaves behind\<close>

lemma insert_entry_success:
  assumes "insert_entry to_f32 flt db txt ts embedding app title fn = (db', Returns (Some i))"
  shows "\<exists>t bs. encode_embedding to_f32 embedding = Inr bs \<and> flt = NoFault \<and>
           db_tables db ''entries'' = Some t \<and> i = next_rowid t \<and>
           db' = db\<lparr>db_tables := (db_tables db)(''entries'' \<mapsto>
                   t\<lparr>tbl_rows := tbl_rows t @
                        [\<lparr>rowid = i, cells = insert_parameters txt ts bs app title fn\<rparr>],
                     tbl_seq := max (tbl_seq t) i\<rparr>)\<rparr>"
proof (cases "encode_embedding to_f32 embedding")
  case (Inl e)
  with assms show ?thesis by (simp add: insert_entry_raises)
next
  case (Inr bs)
  show ?thesis
  proof (cases "flt = NoFault")
    case False
    with Inr assms show ?thesis by (simp add: insert_entry_fault)
  next
    case True
    with Inr assms show ?thesis
      by (auto simp add: insert_entry_no_fault insert_values_def insert_row_parameters
          split: sum.splits option.splits if_splits)
  qed
qed

subsection \<open>Ordering\<close>

lemma create_db_empty: "create_db empty_database = (current_store [], [])"
  by (simp add: create_db_def empty_database_def select_table_sql_def view_def
      migration_needed_def exec_ddl_def create_table_if_not_exists_def create_table_def
      name_taken_def and_then_def create_index_if_not_exists_def new_entries_table_def
      entries_columns_def ensure_filename_def select_limit_1_def commit_def current_store_def)

lemma get_timestamps_three:
  "get_timestamps NoFault
     (fst (insert_entry to_f32 NoFault
       (fst (insert_entry to_f32 NoFault
         (fst (insert_entry to_f32 NoFault (fst (create_db empty_database))
            x1 100 (Ndarray (map Num v1)) a1 w1 f1))
          x2 300 (Ndarray (map Num v2)) a2 w2 f2))
        x3 200 (Ndarray (map Num v3)) a3 w3 f3))
   = [SqlInt 300, SqlInt 200, SqlInt 100]"
proof -
  have enc: "encode_embedding to_f32 (Ndarray (map Num v)) = Inr (tobytes (map to_f32 v))" for v
    by (simp add: astype_float32_Num)
  have cur: "db_tables (current_store []) ''entries'' = Some new_entries_table"
    by (simp add: current_store_def new_entries_table_def)
  show ?thesis
    apply (simp add: create_db_empty)
    apply (simp add: insert_entry_current [OF cur _ _ enc] new_entries_table_def)
    apply (subst insert_entry_current [OF _ _ _ enc])
       apply simp
      apply simp
     apply simp
    apply (subst insert_entry_current [OF _ _ _ enc])
       apply simp
      apply simp
     apply simp
    apply (simp add: get_timestamps_eq entries_columns_def order_by_timestamp_desc_def
        cell_def insert_parameters_def)
    done
qed

lemma descending_entries:
  "get_all_entries flt db = Returns es \<Longrightarrow> descending (map entry_timestamp es)"
proof (cases "db_tables db ''entries''")
  case None
  assume "get_all_entries flt db = Returns es"
  with None show ?thesis by (simp add: get_all_entries_no_table descending_def)
next
  case (Some t)
  assume ret: "get_all_entries flt db = Returns es"
  show ?thesis
  proof (cases "set entries_columns \<subseteq> set (tbl_columns t) \<and> flt \<noteq> FailConnect \<and> flt \<noteq> FailExecute")
    case False
    with Some ret have "es = []"
      using get_all_entries_missing_column [of db t flt] get_all_entries_fault [of flt db]
      by auto
    then show ?thesis by (simp add: descending_def)
  next
    case True
    have ok: "embeddings_ok t"
      using get_all_entries_malformed [OF Some, of flt] True ret by auto
    have sel: "select_order_by_timestamp_desc entries_columns ''entries'' db =
       Inr (map (\<lambda>r. map (\<lambda>c. (c, cell r c)) entries_columns) (order_by_timestamp_desc (tbl_rows t)))"
      using Some True by (simp add: select_all_columns)
    have "get_all_entries flt db = Returns (map entry_of_row (order_by_timestamp_desc (tbl_rows t)))"
      using True ok
      by (simp add: get_all_entries_def connect_def execute_query_def view_def sel
          build_entries_ok embeddings_ok_order_by embeddings_ok_def)
    with ret have es: "es = map entry_of_row (order_by_timestamp_desc (tbl_rows t))" by simp
    have "map entry_timestamp es = map (\<lambda>r. cell r ''timestamp'') (order_by_timestamp_desc (tbl_rows t))"
      by (simp add: es entry_of_row_def comp_def)
    then show ?thesis by (simp add: descending_order_by_timestamp_desc)
  qed
qed

lemma all_entries_returned:
  assumes "db_tables db ''entries'' = Some t" and "set entries_columns \<subseteq> set (tbl_columns t)"
    and "embeddings_ok t"
  shows "\<exists>es. get_all_entries NoFault db = Returns es \<and>
              mset es = mset (map entry_of_row (tbl_rows t))"
proof -
  have "mset (map entry_of_row (order_by_timestamp_desc (tbl_rows t))) =
        mset (map entry_of_row (tbl_rows t))"
    using mset_order_by_timestamp_desc [of "tbl_rows t"] by (metis mset_map)
  with get_all_entries_ok [OF assms] show ?thesis by simp
qed

lemma all_entries_answered:
  assumes "connect flt db = Inr conn"
    and "execute_query flt (select_order_by_timestamp_desc entries_columns ''entries'') conn =
           Inr results"
    and "db_tables db ''entries'' = Some t" and "embeddings_ok t"
  shows "\<exists>es. get_all_entries flt db = Returns es \<and>
              mset es = mset (map entry_of_row (tbl_rows t))"
proof -
  from select_answered [OF assms(1-3)]
  have f: "flt \<noteq> FailConnect" "flt \<noteq> FailExecute"
    and c: "set entries_columns \<subseteq> set (tbl_columns t)"
    by simp_all
  from all_entries_returned [OF assms(3) c assms(4)] show ?thesis
    by (simp add: get_all_entries_commit_fault [OF f])
qed

lemma current_store_table:
  "db_tables (current_store rows) ''entries'' =
     Some (new_entries_table\<lparr>tbl_rows := rows, tbl_seq := fold max (map rowid rows) 0\<rparr>)"
  by (simp add: current_store_def)

lemma current_store_columns:
  "tbl_columns (new_entries_table\<lparr>tbl_rows := rows, tbl_seq := n\<rparr>) = entries_columns"
  by (simp add: new_entries_table_def)

lemma current_store_embeddings_ok:
  "embeddings_ok (new_entries_table\<lparr>tbl_rows := rows, tbl_seq := n\<rparr>) =
     list_all (\<lambda>r. blob_ok (cell r ''embedding'')) rows"
  by (simp add: embeddings_ok_def)

lemma sample_rows_sorted:
  "order_by_timestamp_desc [sample_row 1 100, sample_row 2 300, sample_row 3 200] =
     [sample_row 2 300, sample_row 3 200, sample_row 1 100]"
  by (simp add: order_by_timestamp_desc_def sample_row_def insert_parameters_def cell_def)

lemma sample_store_entries:
  "get_all_entries NoFault (current_store [sample_row 1 100, sample_row 2 300, sample_row 3 200]) =
     Returns (map entry_of_row [sample_row 2 300, sample_row 3 200, sample_row 1 100])"
proof -
  have "get_all_entries NoFault (current_store [sample_row 1 100, sample_row 2 300, sample_row 3 200]) =
     Returns (map entry_of_row (order_by_timestamp_desc [sample_row 1 100, sample_row 2 300, sample_row 3 200]))"
    using get_all_entries_ok [OF current_store_table,
        of "[sample_row 1 100, sample_row 2 300, sample_row 3 200]"]
    by (simp add: current_store_columns current_store_embeddings_ok blob_ok_def
        sample_row_def insert_parameters_def cell_def)
  then show ?thesis by (simp only: sample_rows_sorted)
qed

text \<open>
  As claim C3 is written, for every state of the store, it fails in two ways that the
  code intends. A row whose blob does not decode makes \<^verbatim>\<open>get_all_entries\<close> raise
  \<^verbatim>\<open>ValueError\<close> (the handler of line 134 catches \<^verbatim>\<open>sqlite3.Error\<close> only), so no
  entry is returned although the table holds two. And when the store raises during the
  call, both functions return the empty list, as their docstrings say, although the table
  holds a row.
\<close>

theorem undecodable_row_no_entries_counterexample:
  "map_option tbl_rows
     (db_tables (current_store [malformed_row 1 300, sample_row 2 200]) ''entries'') =
     Some [malformed_row 1 300, sample_row 2 200] \<and>
   get_all_entries NoFault (current_store [malformed_row 1 300, sample_row 2 200]) =
     Raises ValueError \<and>
   stored_timestamps (current_store [sample_row 1 100]) = [SqlInt 100] \<and>
   get_timestamps FailExecute (current_store [sample_row 1 100]) = [] \<and>
   get_all_entries FailExecute (current_store [sample_row 1 100]) = Returns []"
proof -
  have sorted: "order_by_timestamp_desc [malformed_row 1 300, sample_row 2 200] =
      [malformed_row 1 300, sample_row 2 200]"
    by (simp add: order_by_timestamp_desc_def sample_row_def malformed_row_def
        insert_parameters_def cell_def)
  have "frombuffer (cell (malformed_row 1 300) ''embedding'') = Inl ValueError"
    by (simp add: malformed_row_def insert_parameters_def cell_def)
  then have "make_entry (map (\<lambda>c. (c, cell (malformed_row 1 300) c)) entries_columns) =
      Inl ValueError"
    by (simp add: make_entry_selected)
  then have raised: "get_all_entries NoFault (current_store [malformed_row 1 300, sample_row 2 200]) =
      Raises ValueError"
    by (simp add: get_all_entries_def connect_def execute_query_def view_def
        select_all_columns [OF current_store_table] current_store_columns sorted)
  have stored: "stored_timestamps (current_store [sample_row 1 100]) = [SqlInt 100]"
    by (simp add: stored_timestamps_def current_store_def new_entries_table_def
        entries_columns_def sample_row_def insert_parameters_def cell_def)
  show ?thesis
    using raised stored
    by (simp add: get_timestamps_eq get_all_entries_fault) (simp add: current_store_def)
qed

text \<open>
  Claim C3, amended. For every store, \<^verbatim>\<open>get_timestamps\<close> returns a list in descending
  order, and when the store raises no error it is the timestamps of all rows of the
  table, each as often as it is stored. Whatever \<^verbatim>\<open>get_all_entries\<close> returns is in
  descending order of timestamp too; when the store raises no error during the call (the
  connection of line 115 opens and the query of line 118 is answered) and every stored
  blob decodes, it returns all the entries of the table. After \<^verbatim>\<open>create_db\<close> on an
  empty store and three inserts with the timestamps 100, 300, 200, \<^verbatim>\<open>get_timestamps\<close>
  returns \<open>[300, 200, 100]\<close>.
\<close>

theorem ordered_by_timestamp_descending:
  "descending (get_timestamps flt db) \<and>
   mset (get_timestamps NoFault db) = mset (stored_timestamps db) \<and>
   (get_all_entries flt db = Returns es \<longrightarrow> descending (map entry_timestamp es)) \<and>
   (connect flt db = Inr conn \<and>
    execute_query flt (select_order_by_timestamp_desc entries_columns ''entries'') conn =
      Inr results \<and>
    db_tables db ''entries'' = Some t \<and> embeddings_ok t \<longrightarrow>
      (\<exists>es'. get_all_entries flt db = Returns es' \<and>
             mset es' = mset (map entry_of_row (tbl_rows t)))) \<and>
   get_timestamps NoFault
     (fst (insert_entry to_f32 NoFault
       (fst (insert_entry to_f32 NoFault
         (fst (insert_entry to_f32 NoFault (fst (create_db empty_database))
            x1 100 (Ndarray (map Num v1)) a1 w1 f1))
          x2 300 (Ndarray (map Num v2)) a2 w2 f2))
        x3 200 (Ndarray (map Num v3)) a3 w3 f3))
     = [SqlInt 300, SqlInt 200, SqlInt 100]"
proof (intro conjI impI)
  show "descending (get_timestamps flt db)"
    by (rule descending_get_timestamps)
  show "mset (get_timestamps NoFault db) = mset (stored_timestamps db)"
    by (rule mset_get_timestamps)
  show "descending (map entry_timestamp es)" if "get_all_entries flt db = Returns es"
    using that by (rule descending_entries)
  show "\<exists>es'. get_all_entries flt db = Returns es' \<and>
             mset es' = mset (map entry_of_row (tbl_rows t))"
    if "connect flt db = Inr conn \<and>
        execute_query flt (select_order_by_timestamp_desc entries_columns ''entries'') conn =
          Inr results \<and>
        db_tables db ''entries'' = Some t \<and> embeddings_ok t"
    using that all_entries_answered [of flt db conn results t] by blast
  show "get_timestamps NoFault
     (fst (insert_entry to_f32 NoFault
       (fst (insert_entry to_f32 NoFault
         (fst (insert_entry to_f32 NoFault (fst (create_db empty_database))
            x1 100 (Ndarray (map Num v1)) a1 w1 f1))
          x2 300 (Ndarray (map Num v2)) a2 w2 f2))
        x3 200 (Ndarray (map Num v3)) a3 w3 f3))
     = [SqlInt 300, SqlInt 200, SqlInt 100]"
    by (rule get_timestamps_three)
qed

theorem ordered_by_timestamp_descending_witness:
  "get_all_entries NoFault (current_store [sample_row 1 100, sample_row 2 300, sample_row 3 200]) =
     Returns (map entry_of_row [sample_row 2 300, sample_row 3 200, sample_row 1 100]) \<and>
   descending (map entry_timestamp
     (map entry_of_row [sample_row 2 300, sample_row 3 200, sample_row 1 100])) \<and>
   map entry_timestamp (map entry_of_row [sample_row 2 300, sample_row 3 200, sample_row 1 100]) =
     [SqlInt 300, SqlInt 200, SqlInt 100]"
proof -
  have "get_all_entries NoFault
          (current_store [sample_row 1 100, sample_row 2 300, sample_row 3 200]) =
          Returns (map entry_of_row [sample_row 2 300, sample_row 3 200, sample_row 1 100]) \<longrightarrow>
        descending (map entry_timestamp
          (map entry_of_row [sample_row 2 300, sample_row 3 200, sample_row 1 100]))"
    by (rule ordered_by_timestamp_descending [THEN conjunct2, THEN conjunct2, THEN conjunct1])
  with sample_store_entries show ?thesis
    by (simp add: entry_of_row_def sample_row_def insert_parameters_def cell_def)
qed

subsection \<open>The length of the stored blob\<close>

text \<open>
  Claim C7. Whenever \<^verbatim>\<open>insert_entry\<close> succeeds on an array of \<open>n\<close> elements (it
  returns an id), the table has exactly one more row, the row has that id, and its
  \<^verbatim>\<open>embedding\<close> is a blob of exactly \<open>4 * n\<close> bytes, hence a multiple of 4. If every
  blob of the table decoded before the insert, every blob decodes after it.
\<close>

theorem stored_blob_length:
  assumes "insert_entry to_f32 flt db txt ts (Ndarray xs) app title fn = (db', Returns (Some i))"
  shows "\<exists>t t' r bs. db_tables db ''entries'' = Some t \<and> db_tables db' ''entries'' = Some t' \<and>
           tbl_rows t' = tbl_rows t @ [r] \<and> rowid r = i \<and>
           cell r ''embedding'' = SqlBlob bs \<and> length bs = 4 * length xs \<and>
           length bs mod 4 = 0 \<and> (embeddings_ok t \<longrightarrow> embeddings_ok t')"
proof -
  from insert_entry_success [OF assms] obtain t bs where
    enc: "encode_embedding to_f32 (Ndarray xs) = Inr bs" and t: "db_tables db ''entries'' = Some t"
    and db': "db' = db\<lparr>db_tables := (db_tables db)(''entries'' \<mapsto>
                   t\<lparr>tbl_rows := tbl_rows t @
                        [\<lparr>rowid = i, cells = insert_parameters txt ts bs app title fn\<rparr>],
                     tbl_seq := max (tbl_seq t) i\<rparr>)\<rparr>"
    by blast
  have len: "length bs = 4 * length xs" using enc by (rule encode_embedding_length)
  have emb: "cell \<lparr>rowid = i, cells = insert_parameters txt ts bs app title fn\<rparr> ''embedding'' = SqlBlob bs"
    by (simp add: cell_def insert_parameters_def)
  have "embeddings_ok t \<longrightarrow> embeddings_ok (t\<lparr>tbl_rows := tbl_rows t @
                        [\<lparr>rowid = i, cells = insert_parameters txt ts bs app title fn\<rparr>],
                     tbl_seq := max (tbl_seq t) i\<rparr>)"
    using len by (simp add: embeddings_ok_def emb blob_ok_def)
  with t db' len emb show ?thesis by auto
qed

lemma sample_insert:
  "insert_entry (\<lambda>x. x) NoFault (current_store []) ''hello'' 1000
     (Ndarray [Num 0x3F800000]) ''Notes'' ''Untitled'' (Some ''shot1.png'') =
   (current_store [sample_row 1 1000], Returns (Some 1))"
  using insert_entry_current [OF current_store_table current_store_columns _ sample_encode,
      of "[]" "''hello''" 1000 "''Notes''" "''Untitled''" "Some ''shot1.png''"]
  by (simp add: new_entries_table_def next_rowid_def current_store_def sample_row_def)

theorem stored_blob_length_witness:
  "insert_entry (\<lambda>x. x) NoFault (current_store []) ''hello'' 1000
     (Ndarray [Num 0x3F800000]) ''Notes'' ''Untitled'' (Some ''shot1.png'') =
   (current_store [sample_row 1 1000], Returns (Some 1)) \<and>
   (\<exists>t t' r bs. db_tables (current_store []) ''entries'' = Some t \<and>
      db_tables (current_store [sample_row 1 1000]) ''entries'' = Some t' \<and>
      tbl_rows t' = tbl_rows t @ [r] \<and> rowid r = 1 \<and>
      cell r ''embedding'' = SqlBlob bs \<and> length bs = 4 * length [Num (0x3F800000 :: float32)] \<and>
      length bs mod 4 = 0 \<and> (embeddings_ok t \<longrightarrow> embeddings_ok t'))"
  using stored_blob_length [OF sample_insert] sample_insert by simp

subsection \<open>Rows that do not decode, tables without \<^verbatim>\<open>filename\<close>\<close>

text \<open>
  As claim C9 is written, for every state holding such a row, it fails where the code
  means it to: the store raises during the call (here the query of line 118 fails, as it
  does on a locked file), the handler of line 134 catches the \<^verbatim>\<open>sqlite3.Error\<close>, and
  the empty list is returned although the table holds a row with a blob of 3 bytes.
\<close>

theorem malformed_blob_store_error_counterexample:
  "map_option tbl_rows (db_tables (current_store [malformed_row 1 1000]) ''entries'') =
     Some [malformed_row 1 1000] \<and>
   cell (malformed_row 1 1000) ''embedding'' = SqlBlob [1, 2, 3] \<and>
   length [1, 2, 3 :: byte] mod 4 \<noteq> 0 \<and>
   get_all_entries FailExecute (current_store [malformed_row 1 1000]) = Returns []"
  by (simp add: get_all_entries_fault)
     (simp add: current_store_def malformed_row_def insert_parameters_def cell_def)

text \<open>
  Claim C9, amended. Whenever the store raises no error during the call (the connection
  of line 115 opens and the query of line 118 is answered) and some row of the table
  holds a blob whose length is not a multiple of 4, \<^verbatim>\<open>get_all_entries\<close> raises to its
  caller: \<^verbatim>\<open>ValueError\<close> from the decoding, or \<^verbatim>\<open>TypeError\<close> when a row that comes
  earlier holds no blob at all. It returns no list, neither empty nor shortened.
\<close>

theorem malformed_blob_raises:
  assumes "connect flt db = Inr conn"
    and "execute_query flt (select_order_by_timestamp_desc entries_columns ''entries'') conn =
           Inr results"
    and "db_tables db ''entries'' = Some t"
    and "r \<in> set (tbl_rows t)" and "cell r ''embedding'' = SqlBlob bs"
    and "length bs mod 4 \<noteq> 0"
  shows "get_all_entries flt db = Raises ValueError \<or> get_all_entries flt db = Raises TypeError"
proof -
  from select_answered [OF assms(1-3)]
  have f: "flt \<noteq> FailConnect" "flt \<noteq> FailExecute"
    and c: "set entries_columns \<subseteq> set (tbl_columns t)"
    by simp_all
  have "\<not> blob_ok (cell r ''embedding'')"
    using assms(5,6) by (simp add: blob_ok_def)
  with assms(4) have "\<not> embeddings_ok t"
    by (auto simp add: embeddings_ok_def list_all_iff)
  with assms(3) c f show ?thesis by (simp add: get_all_entries_malformed)
qed

theorem malformed_blob_raises_witness:
  "get_all_entries NoFault (current_store [sample_row 1 100, malformed_row 2 1000]) =
     Raises ValueError"
proof -
  have sorted: "order_by_timestamp_desc [sample_row 1 100, malformed_row 2 1000] =
      [malformed_row 2 1000, sample_row 1 100]"
    by (simp add: order_by_timestamp_desc_def sample_row_def malformed_row_def
        insert_parameters_def cell_def)
  have sel: "select_order_by_timestamp_desc entries_columns ''entries''
        (current_store [sample_row 1 100, malformed_row 2 1000]) =
      Inr (map (\<lambda>r. map (\<lambda>c. (c, cell r c)) entries_columns)
             [malformed_row 2 1000, sample_row 1 100])"
    by (simp add: select_all_columns [OF current_store_table] current_store_columns sorted)
  have "get_all_entries NoFault (current_store [sample_row 1 100, malformed_row 2 1000]) = Raises ValueError \<or>
        get_all_entries NoFault (current_store [sample_row 1 100, malformed_row 2 1000]) = Raises TypeError"
    by (rule malformed_blob_raises [OF _ _ current_store_table,
          where r = "malformed_row 2 1000" and bs = "[1, 2, 3]"
            and conn = "\<lparr>committed = current_store [sample_row 1 100, malformed_row 2 1000],
                          pending = None\<rparr>"
            and results = "map (\<lambda>r. map (\<lambda>c. (c, cell r c)) entries_columns)
                             [malformed_row 2 1000, sample_row 1 100]"])
       (simp add: connect_def, simp add: execute_query_def view_def sel,
        simp_all add: malformed_row_def insert_parameters_def cell_def)
  moreover have "frombuffer (cell (malformed_row 2 1000) ''embedding'') = Inl ValueError"
    by (simp add: malformed_row_def insert_parameters_def cell_def)
  then have "make_entry (map (\<lambda>c. (c, cell (malformed_row 2 1000) c)) entries_columns) =
      Inl ValueError"
    by (simp add: make_entry_selected)
  then have "get_all_entries NoFault (current_store [sample_row 1 100, malformed_row 2 1000]) \<noteq>
      Raises TypeError"
    by (simp add: get_all_entries_def connect_def execute_query_def view_def sel)
  ultimately show ?thesis by blast
qed

text \<open>
  Claim C8, at the input where the code departs from it. The table has the six legacy
  columns and no \<^verbatim>\<open>filename\<close>, and holds one row. The SELECT of line 118 names
  \<^verbatim>\<open>filename\<close>, so it raises, and \<^verbatim>\<open>get_all_entries\<close> returns the empty list: the
  row is not returned with an absent filename, it is not returned at all. The test of
  line 131 for a row without the key cannot be reached.
\<close>

theorem missing_filename_column_no_entry:
  "map_option tbl_rows (db_tables (legacy_store [sample_row_no_filename 1 1000]) ''entries'') =
     Some [sample_row_no_filename 1 1000] \<and>
   get_all_entries NoFault (legacy_store [sample_row_no_filename 1 1000]) = Returns []"
proof -
  have "get_all_entries NoFault (legacy_store [sample_row_no_filename 1 1000]) = Returns []"
    by (rule get_all_entries_missing_column [where t = "the (db_tables (legacy_store [sample_row_no_filename 1 1000]) ''entries'')"])
       (simp_all add: legacy_store_def legacy_table_def entries_columns_def)
  then show ?thesis
    by (simp add: legacy_store_def legacy_table_def)
qed

text \<open>The other half of C8 holds: a stored NULL is reported as \<^verbatim>\<open>None\<close>.\<close>

lemma null_filename_reported:
  assumes "db_tables db ''entries'' = Some t" and "set entries_columns \<subseteq> set (tbl_columns t)"
    and "embeddings_ok t" and "r \<in> set (tbl_rows t)" and "cell r ''filename'' = SqlNull"
  shows "\<exists>es. get_all_entries NoFault db = Returns es \<and> entry_of_row r \<in> set es \<and>
              entry_filename (entry_of_row r) = SqlNull"
proof -
  have "entry_of_row r \<in> set (map entry_of_row (order_by_timestamp_desc (tbl_rows t)))"
    using assms(4) by (simp add: set_order_by_timestamp_desc)
  moreover have "entry_filename (entry_of_row r) = SqlNull"
    using assms(5) by (simp add: entry_of_row_def)
  ultimately show ?thesis
    using get_all_entries_ok [OF assms(1-3)] by simp
qed

subsection \<open>Entries that share a timestamp\<close>






subsection \<open>\<^verbatim>\<open>create_db\<close>: the test on the stored definition\<close>

lemma entries_sql_not_legacy: "\<not> is_substring ''timestamp INTEGER UNIQUE'' entries_sql"
  by code_simp



subsection \<open>\<^verbatim>\<open>create_db\<close> without migration\<close>

lemma create_db_current:
  assumes "db_tables db ''entries'' = Some t" and "current_shape t"
  shows "create_db db =
     (if map_of (db_indexes db) ''idx_timestamp'' \<noteq> None then (db, [])
      else if db_tables db ''idx_timestamp'' \<noteq> None then (db, [DatabaseError OperationalError])
      else (db\<lparr>db_indexes := db_indexes db @ [(''idx_timestamp'', ''entries'', ''timestamp'')]\<rparr>, []))"
proof -
  have sql: "tbl_sql t = entries_sql" and cols: "tbl_columns t = entries_columns"
    using assms(2) by (simp_all add: current_shape_def)
  have needed: "\<not> migration_needed (select_table_sql ''entries'' db)"
    using assms(1) sql by (simp add: migration_needed_def select_table_sql_def entries_sql_not_legacy)
  show ?thesis
    using assms(1) needed cols
    by (simp add: create_db_def Let_def view_def exec_ddl_def create_table_if_not_exists_def
        and_then_def create_index_if_not_exists_def ensure_filename_def select_limit_1_def
        commit_def rollback_def entries_columns_def)
qed


subsection \<open>\<^verbatim>\<open>create_db\<close>: the migration\<close>















subsection \<open>\<^verbatim>\<open>create_db\<close> is idempotent\<close>

text \<open>
  Claim C5. On an empty store \<^verbatim>\<open>create_db\<close> creates the table in the current shape
  and the index and reports no error; called again on the result it leaves exactly that
  store and reports no error. On any store whose \<^verbatim>\<open>entries\<close> table is in the current
  shape it changes no table (neither contents nor shape; at most the index is added), a
  second call returns what the first returned and changes nothing, and no error is
  reported unless a table occupies the name of the index.
\<close>

theorem create_db_idempotent:
  "create_db empty_database = (current_store [], []) \<and>
   create_db (fst (create_db empty_database)) = (fst (create_db empty_database), []) \<and>
   (db_tables db ''entries'' = Some t \<and> current_shape t \<longrightarrow>
      db_tables (fst (create_db db)) = db_tables db \<and>
      create_db (fst (create_db db)) = create_db db \<and>
      (db_tables db ''idx_timestamp'' = None \<longrightarrow> snd (create_db db) = []))"
proof (intro conjI impI)
  show fresh: "create_db empty_database = (current_store [], [])"
    by (rule create_db_empty)
  have shape: "current_shape (new_entries_table\<lparr>tbl_rows := [], tbl_seq := fold max (map rowid []) 0\<rparr>)"
    by (simp add: current_shape_def new_entries_table_def)
  show "create_db (fst (create_db empty_database)) = (fst (create_db empty_database), [])"
    using create_db_current [OF current_store_table shape]
    by (simp add: fresh) (simp add: current_store_def)
next
  assume a: "db_tables db ''entries'' = Some t \<and> current_shape t"
  then have eq: "create_db db =
     (if map_of (db_indexes db) ''idx_timestamp'' \<noteq> None then (db, [])
      else if db_tables db ''idx_timestamp'' \<noteq> None then (db, [DatabaseError OperationalError])
      else (db\<lparr>db_indexes := db_indexes db @ [(''idx_timestamp'', ''entries'', ''timestamp'')]\<rparr>, []))"
    by (simp add: create_db_current)
  show tabs: "db_tables (fst (create_db db)) = db_tables db"
    by (simp add: eq)
  show "snd (create_db db) = []" if "db_tables db ''idx_timestamp'' = None"
    using that by (simp add: eq)
  have again: "db_tables (fst (create_db db)) ''entries'' = Some t"
    using a by (simp add: tabs)
  show "create_db (fst (create_db db)) = create_db db"
  proof (cases "map_of (db_indexes db) ''idx_timestamp'' = None \<and>
      db_tables db ''idx_timestamp'' = None")
    case False
    then have "create_db db = (db, snd (create_db db))"
      by (auto simp add: eq)
    then have "fst (create_db db) = db"
      by (metis fst_conv)
    then show ?thesis by simp
  next
    case True
    let ?db' = "db\<lparr>db_indexes := db_indexes db @ [(''idx_timestamp'', ''entries'', ''timestamp'')]\<rparr>"
    have first: "create_db db = (?db', [])"
      using True by (simp add: eq)
    have "db_tables ?db' ''entries'' = Some t"
      using a by simp
    from create_db_current [OF this] a have "create_db ?db' = (?db', [])"
      using True by simp
    with first show ?thesis by simp
  qed
qed

theorem create_db_idempotent_witness:
  "db_tables (fst (create_db (current_store [sample_row 1 1000]))) =
     db_tables (current_store [sample_row 1 1000]) \<and>
   create_db (fst (create_db (current_store [sample_row 1 1000]))) =
     create_db (current_store [sample_row 1 1000]) \<and>
   snd (create_db (current_store [sample_row 1 1000])) = []"
proof -
  have hyp: "db_tables (current_store [sample_row 1 1000]) ''entries'' =
      Some (new_entries_table\<lparr>tbl_rows := [sample_row 1 1000],
        tbl_seq := fold max (map rowid [sample_row 1 1000]) 0\<rparr>) \<and>
      current_shape (new_entries_table\<lparr>tbl_rows := [sample_row 1 1000],
        tbl_seq := fold max (map rowid [sample_row 1 1000]) 0\<rparr>)"
    by (simp add: current_store_def current_shape_def new_entries_table_def)
  have free: "db_tables (current_store [sample_row 1 1000]) ''idx_timestamp'' = None"
    by (simp add: current_store_def)
  from create_db_idempotent [THEN conjunct2, THEN conjunct2, rule_format, OF hyp] free
  show ?thesis by blast
qed

end
